theory Spec2Isabelle
  imports Main "HOL-Library.Char_ord" "HOL-Library.List_Lexorder" "HOL-Library.Product_Lexorder"
begin

section \<open>Python values and the tag library's objects\<close>

text \<open>
  The editor (tag_editor.py) is a thin wrapper around the tag library: every tag
  dictionary, picture and file object it touches comes from that library, and every
  write to the audio file goes through one of the library's \<open>save\<close> methods. The
  library is not part of the repository, so its objects are modelled here as plain
  data (a tag dictionary is a map) and its input/output as functions of an environment
  record that every operation of the editor receives.
\<close>

type_synonym bytes = "nat list"
type_synonym disk = "string \<rightharpoonup> bytes"

text \<open>Exceptions: the two classes the source catches by name, and all the others.\<close>

datatype exn = ID3NoHeaderError string | FileNotFoundError string | PyException string

fun str_exn :: "exn \<Rightarrow> string" where
  "str_exn (ID3NoHeaderError m) = m"
| "str_exn (FileNotFoundError m) = m"
| "str_exn (PyException m) = m"

text \<open>Decimal printing of a number, as \<open>str\<close> and an f-string do.\<close>

function str_nat :: "nat \<Rightarrow> string" where
  "str_nat n = (if n < 10 then [''0123456789'' ! n]
                else str_nat (n div 10) @ [''0123456789'' ! (n mod 10)])"
  by pat_completeness auto
termination
  by (relation "measure (\<lambda>n. n)") auto

definition str_int :: "int \<Rightarrow> string" where
  "str_int i = (if i < 0 then CHR ''-'' # str_nat (nat (- i)) else str_nat (nat i))"

text \<open>
  What a tag dictionary hands back for a key: a list of objects (the usual case) or a
  single object (some tag formats). \<open>normalize_value\<close> applies \<open>str\<close> to each object.
\<close>

datatype pyobj = PyStr string | PyInt int

fun py_str :: "pyobj \<Rightarrow> string" where
  "py_str (PyStr s) = s"
| "py_str (PyInt i) = str_int i"

datatype pyval = PyList "pyobj list" | PyOther pyobj

definition startswith :: "string \<Rightarrow> string \<Rightarrow> bool" where
  "startswith s p = (take (length p) s = p)"

definition endswith :: "string \<Rightarrow> string \<Rightarrow> bool" where
  "endswith s p = (length p \<le> length s \<and> drop (length s - length p) s = p)"

text \<open>\<open>str.lower\<close> on the ASCII letters.\<close>

definition lower_char :: "char \<Rightarrow> char" where
  "lower_char c = (let n = of_char c :: nat in if 65 \<le> n \<and> n \<le> 90 then char_of (n + 32) else c)"

definition lower :: "string \<Rightarrow> string" where
  "lower s = map lower_char s"

subsection \<open>The object opened with \<open>easy=True\<close> (\<open>self.audio\<close>)\<close>

text \<open>
  The simplified text view of a file: a dictionary from tag names to values, which
  refuses the keys (or values) its format has no mapping for by raising. Its \<open>len\<close> is
  the number of tag keys, and that is what Python's \<open>not self.audio\<close> looks at: an
  object with no tag at all is falsy although it is not \<open>None\<close>.
\<close>

record easy_file =
  e_class :: string
  e_tags :: "string \<rightharpoonup> pyval"
  e_accepts :: "string \<Rightarrow> pyval \<Rightarrow> bool"

definition file_contains :: "easy_file \<Rightarrow> string \<Rightarrow> bool" where
  "file_contains f k = (e_tags f k \<noteq> None)"

definition file_get :: "easy_file \<Rightarrow> string \<Rightarrow> exn + pyval option" where
  "file_get f k = Inr (e_tags f k)"

definition file_delitem :: "easy_file \<Rightarrow> string \<Rightarrow> exn + easy_file" where
  "file_delitem f k =
     (if file_contains f k then Inr (f\<lparr>e_tags := (e_tags f)(k := None)\<rparr>)
      else Inl (PyException k))"

definition file_setitem :: "easy_file \<Rightarrow> string \<Rightarrow> pyval \<Rightarrow> exn + easy_file" where
  "file_setitem f k v =
     (if e_accepts f k v then Inr (f\<lparr>e_tags := (e_tags f)(k \<mapsto> v)\<rparr>)
      else Inl (PyException k))"

definition truthy :: "easy_file option \<Rightarrow> bool" where
  "truthy a = (case a of None \<Rightarrow> False | Some f \<Rightarrow> e_tags f \<noteq> Map.empty)"

subsection \<open>The object opened without \<open>easy\<close> (\<open>self.raw\<close>)\<close>

record picture =
  type :: nat
  mime :: string
  desc :: string
  data :: bytes

text \<open>\<open>Picture()\<close> before the source fills it in.\<close>

definition Picture :: picture where
  "Picture = \<lparr>type = 0, mime = '''', desc = '''', data = []\<rparr>"

datatype imageformat = FORMAT_JPEG | FORMAT_PNG

record mp4cover =
  cover_bytes :: bytes
  imageformat :: imageformat

datatype mp4val = MP4Covers "mp4cover list" | MP4Text "string list"

record apic =
  apic_encoding :: nat
  apic_mime :: string
  apic_type :: nat
  apic_desc :: string
  apic_data :: bytes

datatype frame = APIC apic | OtherFrame string

text \<open>
  An ID3 tag is a dictionary from frame keys (\<open>APIC:cover\<close>, \<open>TIT2\<close>, ...) to frames;
  \<open>getall('APIC')[0]\<close> depends on its order, so it is an association list.
\<close>

type_synonym id3 = "(string \<times> frame) list"
type_synonym vcomment = "string \<rightharpoonup> string list"

text \<open>
  The classes the cover code tells apart with \<open>isinstance\<close>; the two Ogg classes share
  one branch everywhere. \<open>OtherFile\<close> is any other file type of the library (MP3, AIFF,
  WAVE, ...): each has a \<open>tags\<close> attribute, which is an ID3 tag (\<open>Some\<close>) or not (\<open>None\<close>:
  no tag, or a tag of another kind).
\<close>

datatype ogg_class = OggVorbis | OggOpus

datatype raw_file =
    FLAC "picture list"
  | MP4 "(string \<rightharpoonup> mp4val) option"
  | Ogg ogg_class "vcomment option"
  | OtherFile "id3 option"

subsection \<open>The environment: the library's input/output\<close>

text \<open>
  A \<open>save\<close> returns the disk it leaves behind and the exception it raised, if any; the
  library writes in place, so a failing save may have written already. \<open>open_easy\<close>
  and \<open>open_raw\<close> are \<open>MutagenFile(path, easy=True)\<close> and \<open>MutagenFile(path)\<close>: they
  return \<open>None\<close> for a file whose format is not recognised, and may raise.
  \<open>id3_load\<close> is \<open>ID3(path)\<close>, \<open>read_bytes\<close> is \<open>open(path, 'rb').read()\<close>,
  \<open>guess_type\<close> is the first component of \<open>mimetypes.guess_type\<close> and \<open>types_map\<close> the
  extension table it consults; \<open>picture_write\<close>, \<open>b64encode\<close> and \<open>b64decode\<close> are the
  picture block serialiser and the Base64 codec.
\<close>

record env =
  mutagen_installed :: bool
  open_easy :: "disk \<Rightarrow> string \<Rightarrow> exn + easy_file option"
  open_raw :: "disk \<Rightarrow> string \<Rightarrow> exn + raw_file option"
  save_easy :: "easy_file \<Rightarrow> string \<Rightarrow> disk \<Rightarrow> disk \<times> exn option"
  save_raw :: "raw_file \<Rightarrow> string \<Rightarrow> disk \<Rightarrow> disk \<times> exn option"
  id3_load :: "disk \<Rightarrow> string \<Rightarrow> exn + id3"
  id3_save :: "id3 \<Rightarrow> string \<Rightarrow> disk \<Rightarrow> disk \<times> exn option"
  read_bytes :: "disk \<Rightarrow> string \<Rightarrow> exn + bytes"
  guess_type :: "string \<Rightarrow> string option"
  types_map :: "string \<rightharpoonup> string"
  picture_write :: "picture \<Rightarrow> bytes"
  b64encode :: "bytes \<Rightarrow> string"
  b64decode :: "string \<Rightarrow> exn + bytes"

section \<open>tag_editor.py: module level\<close>

definition DEFAULT_FIELDS :: "(string \<times> string) list" where
  "DEFAULT_FIELDS =
     [(''title'', ''Title''), (''artist'', ''Artist''), (''album'', ''Album''),
      (''albumartist'', ''Album Artist''), (''tracknumber'', ''Track''),
      (''discnumber'', ''Disc''), (''date'', ''Year''), (''genre'', ''Genre''),
      (''comment'', ''Comment'')]"

definition SUPPORTED_EXTS :: "string set" where
  "SUPPORTED_EXTS = {''.mp3'', ''.flac'', ''.ogg'', ''.oga'', ''.opus'', ''.m4a'', ''.mp4'',
                     ''.aac'', ''.wav'', ''.aiff'', ''.aif''}"

definition IMAGE_EXTS :: "string set" where
  "IMAGE_EXTS = {''.jpg'', ''.jpeg'', ''.png'', ''.webp'', ''.bmp''}"

fun normalize_value :: "pyval option \<Rightarrow> string list" where
  "normalize_value None = []"
| "normalize_value (Some (PyList xs)) = map py_str xs"
| "normalize_value (Some (PyOther x)) = [py_str x]"

section \<open>class TagIO\<close>

record tagio =
  path :: string
  audio :: "easy_file option"
  raw :: "raw_file option"
  format_name :: string
  readonly :: bool


definition TagIO_is_supported :: "tagio \<Rightarrow> bool" where
  "TagIO_is_supported io = (audio io \<noteq> None)"

definition TagIO_get :: "tagio \<Rightarrow> string \<Rightarrow> string list" where
  "TagIO_get io key =
     (case audio io of
        None \<Rightarrow> []
      | Some f \<Rightarrow>
          if \<not> truthy (audio io) then []
          else normalize_value (case file_get f key of Inl e \<Rightarrow> None | Inr v \<Rightarrow> v))"

definition TagIO_set :: "tagio \<Rightarrow> string \<Rightarrow> string \<Rightarrow> tagio" where
  "TagIO_set io key v =
     (case audio io of
        None \<Rightarrow> io
      | Some f \<Rightarrow>
          if \<not> truthy (audio io) then io
          else if v = '''' then
            (if file_contains f key
             then (case file_delitem f key of
                     Inl e \<Rightarrow> io
                   | Inr f' \<Rightarrow> io\<lparr>audio := Some f'\<rparr>)
             else io)
          else (case file_setitem f key (PyList [PyStr v]) of
                  Inl e \<Rightarrow> io
                | Inr f' \<Rightarrow> io\<lparr>audio := Some f'\<rparr>))"

text \<open>
  \<open>save\<close>: the two objects come from two calls of \<open>MutagenFile\<close>, so \<open>self.raw is not
  self.audio\<close> holds whenever \<open>self.raw\<close> is not \<open>None\<close>. An exception of \<open>self.raw.save()\<close>
  is swallowed; what that call wrote stays on the disk.
\<close>

definition TagIO_save :: "env \<Rightarrow> tagio \<Rightarrow> disk \<Rightarrow> (bool \<times> string option) \<times> disk" where
  "TagIO_save E io d =
     (if \<not> truthy (audio io) then ((False, Some ''Unsupported file format''), d)
      else
        let d1 = (case raw io of
                    None \<Rightarrow> d
                  | Some r \<Rightarrow> fst (save_raw E r (path io) d))
        in case save_easy E (the (audio io)) (path io) d1 of
             (d2, None) \<Rightarrow> ((True, None), d2)
           | (d2, Some e) \<Rightarrow> ((False, Some (str_exn e)), d2))"

text \<open>
  The two calls a client makes between opening and closing a handle, as steps on the
  pair of the handle in memory and the disk: \<open>SetField\<close> works on the handle alone.
\<close>

datatype facade_call = SetField string string | Save

fun facade_step :: "env \<Rightarrow> facade_call \<Rightarrow> tagio \<times> disk \<Rightarrow> (bool \<times> string option) option \<times> tagio \<times> disk" where
  "facade_step E (SetField key v) (io, d) = (None, TagIO_set io key v, d)"
| "facade_step E Save (io, d) = (case TagIO_save E io d of (r, d') \<Rightarrow> (Some r, io, d'))"


subsection \<open>Cover art helpers\<close>

text \<open>The library's dictionary operations the cover code uses.\<close>

definition id3_getall :: "id3 \<Rightarrow> string \<Rightarrow> frame list" where
  "id3_getall t key =
     (case map_of t key of
        Some v \<Rightarrow> [v]
      | None \<Rightarrow> map snd (filter (\<lambda>kv. startswith (fst kv) (key @ '':'')) t))"

text \<open>\<open>id3.add(frame)\<close> is \<open>id3[frame.HashKey] = frame\<close>: a key of the dictionary keeps its place.\<close>

fun id3_setitem :: "id3 \<Rightarrow> string \<Rightarrow> frame \<Rightarrow> id3" where
  "id3_setitem [] k fr = [(k, fr)]"
| "id3_setitem (kv # t) k fr = (if fst kv = k then (k, fr) # t else kv # id3_setitem t k fr)"

definition HashKey :: "frame \<Rightarrow> string" where
  "HashKey fr = (case fr of APIC a \<Rightarrow> ''APIC:'' @ apic_desc a | OtherFrame k \<Rightarrow> k)"

definition id3_add :: "id3 \<Rightarrow> frame \<Rightarrow> id3" where
  "id3_add t fr = id3_setitem t (HashKey fr) fr"

definition info_text :: "string \<Rightarrow> string \<Rightarrow> nat \<Rightarrow> string" where
  "info_text label m n = label @ m @ '' ('' @ str_nat n @ '' bytes)''"

definition TagIO_get_cover_info :: "env \<Rightarrow> tagio \<Rightarrow> string option" where
  "TagIO_get_cover_info E io =
     (case raw io of
        None \<Rightarrow> None
      | Some (FLAC pics) \<Rightarrow>
          (case pics of
             [] \<Rightarrow> None
           | p # ps \<Rightarrow>
               Some (info_text ''FLAC picture: ''
                       (if mime p = '''' then ''image/*'' else mime p) (length (data p))))
      | Some (MP4 tags) \<Rightarrow>
          (case (case tags of
                   None \<Rightarrow> None
                 | Some t \<Rightarrow> if t = Map.empty then None else t ''covr'') of
             None \<Rightarrow> None
           | Some (MP4Text xs) \<Rightarrow> None
           | Some (MP4Covers []) \<Rightarrow> None
           | Some (MP4Covers (c # cs)) \<Rightarrow>
               Some (info_text ''MP4 cover: image/''
                       (if imageformat c = FORMAT_JPEG then ''jpeg'' else ''png'')
                       (length (cover_bytes c))))
      | Some (Ogg cls tags) \<Rightarrow>
          (case tags of
             None \<Rightarrow> None
           | Some t \<Rightarrow>
               if t = Map.empty then None
               else
                 (case t ''metadata_block_picture'' of
                    Some (m # ms) \<Rightarrow>
                      (case b64decode E m of
                         Inr b \<Rightarrow> Some (''Vorbis/Opus picture: ('' @ str_nat (length b) @ '' bytes)'')
                       | Inl e \<Rightarrow> Some ''Vorbis/Opus picture: (unreadable)'')
                  | _ \<Rightarrow>
                      (case t ''coverart'' of
                         Some (c # cs) \<Rightarrow>
                           (case b64decode E c of
                              Inl e \<Rightarrow> Some ''Vorbis/Opus coverart present''
                            | Inr b \<Rightarrow>
                                (case (case t ''coverartmime'' of
                                         None \<Rightarrow> [''image/jpeg'']
                                       | Some ms \<Rightarrow> ms) of
                                   [] \<Rightarrow> Some ''Vorbis/Opus coverart present''
                                 | m # ms \<Rightarrow>
                                     Some (info_text ''Vorbis/Opus coverart: '' m (length b))))
                       | _ \<Rightarrow> None)))
      | Some (OtherFile tags) \<Rightarrow>
          (case tags of
             None \<Rightarrow> None
           | Some id3 \<Rightarrow>
               (case (if id3 = [] then [] else id3_getall id3 ''APIC'') of
                  [] \<Rightarrow> None
                | APIC a # fs \<Rightarrow>
                    Some (info_text ''ID3 APIC: ''
                            (if apic_mime a = '''' then ''image/*'' else apic_mime a)
                            (length (apic_data a)))
                | OtherFrame k # fs \<Rightarrow> None)))"

definition TagIO_has_cover :: "env \<Rightarrow> tagio \<Rightarrow> bool" where
  "TagIO_has_cover E io = (TagIO_get_cover_info E io \<noteq> None)"

text \<open>
  The end of every branch that saves: \<open>True, None\<close> when the save returned, and the
  \<open>except Exception as e: return False, str(e)\<close> of the enclosing \<open>try\<close> otherwise.
\<close>

definition saved :: "tagio \<Rightarrow> disk \<times> exn option \<Rightarrow> (bool \<times> string option) \<times> tagio \<times> disk" where
  "saved io r =
     (case r of
        (d', None) \<Rightarrow> ((True, None), io, d')
      | (d', Some e) \<Rightarrow> ((False, Some (str_exn e)), io, d'))"

text \<open>\<open>if key in tags: del tags[key]\<close>\<close>

definition del_if_present :: "vcomment \<Rightarrow> string \<Rightarrow> vcomment" where
  "del_if_present t key = (if t key \<noteq> None then t(key := None) else t)"

text \<open>\<open>for k in list(id3.keys()): if k.startswith('APIC'): del id3[k]\<close>\<close>

definition remove_apics :: "id3 \<Rightarrow> id3" where
  "remove_apics t = filter (\<lambda>kv. \<not> startswith (fst kv) ''APIC'') t"


text \<open>Lines 195 to 198 of \<open>set_cover\<close>: the MIME type of the image.\<close>

definition cover_mime :: "env \<Rightarrow> string \<Rightarrow> string" where
  "cover_mime E image_path =
     (case guess_type E image_path of
        None \<Rightarrow> ''image/jpeg''
      | Some m \<Rightarrow> if m = '''' \<or> \<not> startswith m ''image/'' then ''image/jpeg'' else m)"

text \<open>The picture block and the frame \<open>set_cover\<close> builds, and the ID3 tag it saves.\<close>

definition cover_picture :: "string \<Rightarrow> bytes \<Rightarrow> picture" where
  "cover_picture m b = Picture\<lparr>type := 3, mime := m, desc := ''cover'', data := b\<rparr>"

definition cover_apic :: "string \<Rightarrow> bytes \<Rightarrow> frame" where
  "cover_apic m b =
     APIC \<lparr>apic_encoding = 3, apic_mime = m, apic_type = 3, apic_desc = ''cover'', apic_data = b\<rparr>"

definition cover_id3 :: "string \<Rightarrow> bytes \<Rightarrow> id3 \<Rightarrow> id3" where
  "cover_id3 m b t = id3_add (remove_apics t) (cover_apic m b)"

definition TagIO_set_cover :: "env \<Rightarrow> tagio \<Rightarrow> string \<Rightarrow> disk \<Rightarrow> (bool \<times> string option) \<times> tagio \<times> disk" where
  "TagIO_set_cover E io image_path d =
     (case read_bytes E d image_path of
        Inl e \<Rightarrow> ((False, Some (str_exn e)), io, d)
      | Inr b \<Rightarrow>
          (let m = cover_mime E image_path in
           case raw io of
             Some (FLAC pics) \<Rightarrow>
               (let r = FLAC [cover_picture m b]
                in saved (io\<lparr>raw := Some r\<rparr>) (save_raw E r (path io) d))
           | Some (MP4 tags) \<Rightarrow>
               (let t = (case tags of None \<Rightarrow> Map.empty | Some t \<Rightarrow> t);
                    fmt = (if m = ''image/png'' then FORMAT_PNG else FORMAT_JPEG);
                    r = MP4 (Some (t(''covr'' \<mapsto> MP4Covers [\<lparr>cover_bytes = b, imageformat = fmt\<rparr>])))
                in saved (io\<lparr>raw := Some r\<rparr>) (save_raw E r (path io) d))
           | Some (Ogg cls tags) \<Rightarrow>
               (let b64 = b64encode E (picture_write E (cover_picture m b));
                    t = (case tags of None \<Rightarrow> Map.empty | Some t \<Rightarrow> t);
                    t1 = del_if_present t ''coverart'';
                    t2 = del_if_present t1 ''coverartmime'';
                    r = Ogg cls (Some (t2(''metadata_block_picture'' \<mapsto> [b64])))
                in saved (io\<lparr>raw := Some r\<rparr>) (save_raw E r (path io) d))
           | _ \<Rightarrow>
               (case (case id3_load E d (path io) of
                        Inl (ID3NoHeaderError msg) \<Rightarrow> Inr []
                      | Inl e \<Rightarrow> Inl e
                      | Inr id3 \<Rightarrow> Inr id3) of
                  Inl e \<Rightarrow> ((False, Some ''Unsupported format for cover setting''), io, d)
                | Inr id3 \<Rightarrow>
                    (case id3_save E (cover_id3 m b id3) (path io) d of
                       (d', None) \<Rightarrow> ((True, None), io, d')
                     | (d', Some e) \<Rightarrow>
                         ((False, Some ''Unsupported format for cover setting''), io, d')))))"

section \<open>class FileBrowser\<close>

text \<open>
  The path functions of \<open>os.path\<close> (POSIX) the browser uses, written out; the file system
  itself (\<open>os.listdir\<close>, \<open>os.path.isdir\<close>, and \<open>os.path.abspath\<close>, which reads the working
  directory) is a record of functions.
\<close>

definition rstrip :: "string \<Rightarrow> char \<Rightarrow> string" where
  "rstrip s c = rev (dropWhile (\<lambda>x. x = c) (rev s))"

definition os_path_join :: "string \<Rightarrow> string \<Rightarrow> string" where
  "os_path_join a b =
     (if startswith b ''/'' then b
      else if a = '''' \<or> endswith a ''/'' then a @ b
      else a @ ''/'' @ b)"

definition os_path_dirname :: "string \<Rightarrow> string" where
  "os_path_dirname p =
     (let head = rev (dropWhile (\<lambda>x. x \<noteq> CHR ''/'') (rev p))
      in if head \<noteq> '''' \<and> head \<noteq> replicate (length head) CHR ''/'' then rstrip head CHR ''/''
         else head)"

text \<open>
  \<open>os.path.splitext\<close>: the extension starts at the last dot of the last path component,
  provided a character other than a dot stands before it in that component.
\<close>

definition splitext :: "string \<Rightarrow> string \<times> string" where
  "splitext p =
     (let name = rev (takeWhile (\<lambda>x. x \<noteq> CHR ''/'') (rev p));
          ext = CHR ''.'' # rev (takeWhile (\<lambda>x. x \<noteq> CHR ''.'') (rev name));
          stem = take (length name - length ext) name
      in if CHR ''.'' \<in> set name \<and> list_ex (\<lambda>x. x \<noteq> CHR ''.'') stem
         then (take (length p - length ext) p, ext)
         else (p, ''''))"

text \<open>\<open>xs[i]\<close>: a negative index counts from the end, an index out of range raises.\<close>

definition py_index :: "'a list \<Rightarrow> int \<Rightarrow> exn + 'a" where
  "py_index xs i =
     (if 0 \<le> i \<and> i < int (length xs) then Inr (xs ! nat i)
      else if i < 0 \<and> - int (length xs) \<le> i then Inr (xs ! nat (int (length xs) + i))
      else Inl (PyException ''list index out of range''))"

record fs =
  listdir :: "string \<Rightarrow> exn + string list"
  isdir :: "string \<Rightarrow> bool"
  abspath :: "string \<Rightarrow> string"

record filebrowser =
  root :: string
  entries :: "string list"
  selection :: int
  exts :: "string set"

text \<open>One pass of the loop of \<open>refresh\<close>: what a directory entry adds to \<open>items\<close>.\<close>

definition refresh_item :: "fs \<Rightarrow> filebrowser \<Rightarrow> string \<Rightarrow> string list" where
  "refresh_item F b name =
     (if isdir F (os_path_join (root b) name) then [name @ ''/'']
      else if lower (snd (splitext name)) \<in> exts b then [name]
      else [])"

definition refresh_key :: "string \<Rightarrow> bool \<times> string" where
  "refresh_key n = (\<not> endswith n ''/'', lower n)"

text \<open>The last three lines of \<open>refresh\<close>.\<close>

definition refresh_store :: "filebrowser \<Rightarrow> string list \<Rightarrow> filebrowser" where
  "refresh_store b items =
     (let b1 = b\<lparr>entries := items\<rparr>
      in if selection b1 \<ge> int (length (entries b1))
         then b1\<lparr>selection := max 0 (int (length (entries b1)) - 1)\<rparr>
         else b1)"

text \<open>
  \<open>refresh\<close> catches \<open>FileNotFoundError\<close> only: any other exception of \<open>os.listdir\<close>
  leaves the method.
\<close>

definition FileBrowser_refresh :: "fs \<Rightarrow> filebrowser \<Rightarrow> exn + filebrowser" where
  "FileBrowser_refresh F b =
     (case listdir F (root b) of
        Inl (FileNotFoundError m) \<Rightarrow> Inr (refresh_store b (sort_key refresh_key []))
      | Inl e \<Rightarrow> Inl e
      | Inr names \<Rightarrow>
          Inr (refresh_store b (sort_key refresh_key (concat (map (refresh_item F b) names)))))"

definition FileBrowser_init :: "fs \<Rightarrow> string \<Rightarrow> string set option \<Rightarrow> exn + filebrowser" where
  "FileBrowser_init F r e =
     FileBrowser_refresh F
       \<lparr>root = abspath F r, entries = [], selection = 0,
        exts = (case e of None \<Rightarrow> SUPPORTED_EXTS
                | Some x \<Rightarrow> if x = {} then SUPPORTED_EXTS else x)\<rparr>"

definition FileBrowser_enter :: "fs \<Rightarrow> filebrowser \<Rightarrow> exn + (string option \<times> filebrowser)" where
  "FileBrowser_enter F b =
     (if entries b = [] then Inr (None, b)
      else case py_index (entries b) (selection b) of
             Inl e \<Rightarrow> Inl e
           | Inr name \<Rightarrow>
               (let p = os_path_join (root b) (rstrip name CHR ''/'')
                in if endswith name ''/''
                   then (case FileBrowser_refresh F (b\<lparr>root := abspath F p, selection := 0\<rparr>) of
                           Inl e \<Rightarrow> Inl e
                         | Inr b' \<Rightarrow> Inr (None, b'))
                   else Inr (Some p, b)))"

definition FileBrowser_up :: "filebrowser \<Rightarrow> filebrowser" where
  "FileBrowser_up b = b\<lparr>selection := (selection b - 1) mod max 1 (int (length (entries b)))\<rparr>"

definition FileBrowser_down :: "filebrowser \<Rightarrow> filebrowser" where
  "FileBrowser_down b = b\<lparr>selection := (selection b + 1) mod max 1 (int (length (entries b)))\<rparr>"

definition FileBrowser_parent :: "fs \<Rightarrow> filebrowser \<Rightarrow> exn + filebrowser" where
  "FileBrowser_parent F b =
     (let parent = os_path_dirname (root b)
      in if parent \<noteq> '''' \<and> parent \<noteq> root b
         then FileBrowser_refresh F (b\<lparr>root := parent, selection := 0\<rparr>)
         else Inr b)"

text \<open>The selection is an index of the entry list, or 0 when the list is empty.\<close>

definition selection_in_range :: "filebrowser \<Rightarrow> bool" where
  "selection_in_range b =
     (if entries b = [] then selection b = 0
      else 0 \<le> selection b \<and> selection b < int (length (entries b)))"

section \<open>class Tui\<close>

text \<open>
  The fields of the controller but the curses window and the theme. \<open>prompt_input\<close>
  runs the text-input modal on the terminal: here it is a function of the prompt and
  the initial text, returning the confirmed text or \<open>None\<close> on cancellation.
\<close>

record tui =
  browser :: filebrowser
  current_path :: "string option"
  tags :: "string \<rightharpoonup> string"
  cursor_field :: int
  status_msg :: string
  dirty :: bool
  focus :: string
  last_error :: "string option"
  cover_info :: "string option"

definition Tui_edit_field :: "(string \<Rightarrow> string \<Rightarrow> string option) \<Rightarrow> tui \<Rightarrow> int \<Rightarrow> tui" where
  "Tui_edit_field prompt_input t idx =
     (if idx < 0 \<or> idx \<ge> int (length DEFAULT_FIELDS) then t
      else
        let key = fst (DEFAULT_FIELDS ! nat idx);
            label = snd (DEFAULT_FIELDS ! nat idx);
            prompt = label @ '': '';
            val = (case tags t key of None \<Rightarrow> '''' | Some x \<Rightarrow> x);
            new_val = prompt_input prompt val
        in case new_val of
             None \<Rightarrow> t
           | Some nv \<Rightarrow> if nv \<noteq> val then t\<lparr>tags := (tags t)(key \<mapsto> nv), dirty := True\<rparr> else t)"

section \<open>Example handles\<close>

text \<open>
  An MP3 file as the editor opens it: the simplified view of its ID3 tag has a title and
  a genre, and no mapping for the key \<open>comment\<close>.
\<close>

definition song_easy :: easy_file where
  "song_easy = \<lparr>e_class = ''EasyMP3'',
                 e_tags = [''title'' \<mapsto> PyList [PyStr ''Song''], ''genre'' \<mapsto> PyList [PyStr ''Rock'']],
                 e_accepts = (\<lambda>k v. k \<noteq> ''comment'')\<rparr>"

definition song_io :: tagio where
  "song_io = \<lparr>path = ''/music/song.mp3'', audio = Some song_easy,
               raw = Some (OtherFile (Some [])), format_name = ''EasyMP3'', readonly = False\<rparr>"

text \<open>
  A music directory with a subdirectory, two audio files and a text file, the browser
  opened on it, and a controller with one file loaded.
\<close>

definition music_fs :: fs where
  "music_fs =
     \<lparr>listdir = (\<lambda>p. if p = ''/music'' then Inr [''b.MP3'', ''notes.txt'', ''Albums'', ''a.flac'']
                      else if p = ''/music/Albums'' then Inr []
                      else Inl (FileNotFoundError ''No such file or directory'')),
       isdir = (\<lambda>p. p = ''/music/Albums'' \<or> p = ''/music'' \<or> p = ''/''),
       abspath = (\<lambda>p. p)\<rparr>"

definition music_browser :: filebrowser where
  "music_browser =
     \<lparr>root = ''/music'', entries = [''Albums/'', ''a.flac'', ''b.MP3''], selection = 0,
       exts = SUPPORTED_EXTS\<rparr>"

definition edit_tui :: tui where
  "edit_tui =
     \<lparr>browser = music_browser, current_path = Some ''/music/a.flac'',
       tags = [''title'' \<mapsto> ''Old''], cursor_field = 0, status_msg = ''Press [h] for help'',
       dirty = False, focus = ''tags'', last_error = None, cover_info = None\<rparr>"

text \<open>
  An environment in which nothing fails: no file format is recognised, every save
  rewrites the file, no file has an ID3 header, the MIME table is a few lines of the
  standard one. \<open>full_disk_env\<close> is the same but for the save of the simplified view,
  which raises without writing.
\<close>

definition example_types :: "string \<rightharpoonup> string" where
  "example_types =
     [''.jpg'' \<mapsto> ''image/jpeg'', ''.jpeg'' \<mapsto> ''image/jpeg'', ''.png'' \<mapsto> ''image/png'',
      ''.bmp'' \<mapsto> ''image/bmp'', ''.txt'' \<mapsto> ''text/plain'']"

definition example_env :: env where
  "example_env =
     \<lparr>mutagen_installed = True,
       open_easy = (\<lambda>d p. Inr None),
       open_raw = (\<lambda>d p. Inr None),
       save_easy = (\<lambda>f p d. (d(p \<mapsto> [1]), None)),
       save_raw = (\<lambda>r p d. (d(p \<mapsto> [2]), None)),
       id3_load = (\<lambda>d p. Inl (ID3NoHeaderError ''no ID3 header'')),
       id3_save = (\<lambda>t p d. (d(p \<mapsto> [3]), None)),
       read_bytes = (\<lambda>d p. case d p of None \<Rightarrow> Inl (FileNotFoundError p) | Some b \<Rightarrow> Inr b),
       guess_type = (\<lambda>p. example_types (lower (snd (splitext p)))),
       types_map = example_types,
       picture_write = (\<lambda>p. type p # length (mime p) # data p),
       b64encode = map char_of,
       b64decode = (\<lambda>s. Inr (map of_char s))\<rparr>"


definition example_disk :: disk where
  "example_disk =
     [''/music/song.mp3'' \<mapsto> [73, 68, 51], ''/music/notes.txt'' \<mapsto> [104, 105],
      ''/music/cover.PNG'' \<mapsto> [137, 80, 78, 71]]"



text \<open>
  Handles on a Vorbis file with the legacy cover keys, a FLAC file whose only picture
  is a back cover, a FLAC file without pictures and an MP4 file without tags; and an
  environment in which the save of the raw view raises without writing.
\<close>

definition ogg_io :: tagio where
  "ogg_io =
     \<lparr>path = ''/music/tune.ogg'', audio = None,
       raw = Some (Ogg OggVorbis (Some [''title'' \<mapsto> [''Tune''], ''coverart'' \<mapsto> [''AAAA''],
                                        ''coverartmime'' \<mapsto> [''image/gif'']])),
       format_name = ''Unknown'', readonly = False\<rparr>"

definition back_cover_io :: tagio where
  "back_cover_io =
     \<lparr>path = ''/music/album.flac'', audio = None,
       raw = Some (FLAC [\<lparr>type = 4, mime = ''image/png'', desc = ''back'', data = [1, 2, 3]\<rparr>]),
       format_name = ''Unknown'', readonly = False\<rparr>"




text \<open>
  The same frame with another picture type, and the environments in which no library
  call of the cover code raises (but \<open>ID3(path)\<close> on a file without an ID3 header).
\<close>

definition retype :: "nat \<Rightarrow> frame \<Rightarrow> frame" where
  "retype ty fr = (case fr of APIC a \<Rightarrow> APIC (a\<lparr>apic_type := ty\<rparr>) | OtherFrame k \<Rightarrow> fr)"



section \<open>Properties\<close>

subsection \<open>TagIO.get\<close>

text \<open>
  C8: \<open>TagIO.get\<close> returns a list of strings for every handle and every key, the
  normalised value the tag dictionary holds for the key; when the key is absent from
  the tag structure (or there is no tag structure) the list is empty. The function is
  total: the one call that can raise is inside \<open>try\<close>, and its exception becomes the
  empty list.
\<close>

theorem TagIO_get_absent_empty:
  "TagIO_get io key = (case audio io of None \<Rightarrow> [] | Some f \<Rightarrow> normalize_value (e_tags f key))
   \<and> ((\<forall>f. audio io = Some f \<longrightarrow> e_tags f key = None) \<longrightarrow> TagIO_get io key = [])"
  by (auto simp: TagIO_get_def truthy_def file_get_def split: option.splits)

theorem TagIO_get_absent_empty_witness:
  "audio song_io = Some song_easy \<and> e_tags song_easy ''album'' = None
   \<and> TagIO_get song_io ''album'' = []
   \<and> TagIO_get song_io ''title'' = [''Song'']"
  using TagIO_get_absent_empty [of song_io "''album''"] TagIO_get_absent_empty [of song_io "''title''"]
  by (simp add: song_io_def song_easy_def)

subsection \<open>TagIO.set\<close>

text \<open>
  C1 (as amended): on a handle whose tag object is present and holds at least one tag,
  \<open>set\<close> with the empty string leaves the key absent from the tag dictionary; \<open>set\<close> with
  a non-empty string \<open>v\<close> stores exactly \<open>[v]\<close> under the key when the tag object
  accepts the assignment, and leaves the handle as it was when the tag object raises;
  the disk is the same before and after the call.
\<close>

theorem TagIO_set_accepted:
  assumes "audio io = Some f" and "e_tags f \<noteq> Map.empty"
  shows "TagIO_set io key '''' = io\<lparr>audio := Some (f\<lparr>e_tags := (e_tags f)(key := None)\<rparr>)\<rparr>
       \<and> (v \<noteq> '''' \<and> e_accepts f key (PyList [PyStr v]) \<longrightarrow>
            TagIO_set io key v = io\<lparr>audio := Some (f\<lparr>e_tags := (e_tags f)(key \<mapsto> PyList [PyStr v])\<rparr>)\<rparr>
            \<and> TagIO_get (TagIO_set io key v) key = [v])
       \<and> (v \<noteq> '''' \<and> \<not> e_accepts f key (PyList [PyStr v]) \<longrightarrow> TagIO_set io key v = io)
       \<and> snd (snd (facade_step E (SetField key v) (io, d))) = d"
proof -
  have t: "truthy (audio io)"
    using assms by (simp add: truthy_def)
  have c1: "TagIO_set io key '''' = io\<lparr>audio := Some (f\<lparr>e_tags := (e_tags f)(key := None)\<rparr>)\<rparr>"
  proof (cases "file_contains f key")
    case True
    then show ?thesis
      using assms t by (simp add: TagIO_set_def file_delitem_def)
  next
    case False
    then have "(e_tags f)(key := None) = e_tags f"
      by (auto simp: file_contains_def)
    then show ?thesis
      using assms t False by (simp add: TagIO_set_def)
  qed
  have c2a: "v \<noteq> [] \<and> e_accepts f key (PyList [PyStr v]) \<longrightarrow>
            TagIO_set io key v = io\<lparr>audio := Some (f\<lparr>e_tags := (e_tags f)(key \<mapsto> PyList [PyStr v])\<rparr>)\<rparr>"
    using assms t by (simp add: TagIO_set_def file_setitem_def)
  have c2b: "TagIO_get (io\<lparr>audio := Some (f\<lparr>e_tags := (e_tags f)(key \<mapsto> PyList [PyStr v])\<rparr>)\<rparr>) key = [v]"
    by (simp add: TagIO_get_def truthy_def file_get_def)
  have c2: "v \<noteq> [] \<and> e_accepts f key (PyList [PyStr v]) \<longrightarrow>
            TagIO_set io key v = io\<lparr>audio := Some (f\<lparr>e_tags := (e_tags f)(key \<mapsto> PyList [PyStr v])\<rparr>)\<rparr>
            \<and> TagIO_get (TagIO_set io key v) key = [v]"
    using c2a c2b by auto
  have c3: "v \<noteq> '''' \<and> \<not> e_accepts f key (PyList [PyStr v]) \<longrightarrow> TagIO_set io key v = io"
    using assms t by (simp add: TagIO_set_def file_setitem_def)
  have c4: "snd (snd (facade_step E (SetField key v) (io, d))) = d"
    by simp
  show ?thesis using c1 c2 c3 c4 by blast
qed

text \<open>
  The claim as written fails on a supported handle and a catalog field: the simplified
  ID3 view has no \<open>comment\<close> key, the assignment raises, and \<open>set\<close> swallows it.
\<close>

theorem TagIO_set_rejected_key_counterexample:
  "TagIO_is_supported song_io \<and> (''comment'', ''Comment'') \<in> set DEFAULT_FIELDS
   \<and> TagIO_get (TagIO_set song_io ''comment'' ''hello'') ''comment'' \<noteq> [''hello'']
   \<and> TagIO_set song_io ''comment'' ''hello'' = song_io"
  by (simp add: TagIO_is_supported_def DEFAULT_FIELDS_def TagIO_set_def TagIO_get_def
      truthy_def file_setitem_def file_get_def song_io_def song_easy_def)

theorem TagIO_set_accepted_witness:
  "audio song_io = Some song_easy \<and> e_tags song_easy \<noteq> Map.empty
   \<and> e_accepts song_easy ''title'' (PyList [PyStr ''New''])
   \<and> \<not> e_accepts song_easy ''comment'' (PyList [PyStr ''hello''])
   \<and> TagIO_get (TagIO_set song_io ''title'' ''New'') ''title'' = [''New'']
   \<and> TagIO_get (TagIO_set song_io ''title'' '''') ''title'' = []
   \<and> TagIO_set song_io ''comment'' ''hello'' = song_io"
proof -
  have a: "audio song_io = Some song_easy" by (simp add: song_io_def)
  have b: "e_tags song_easy \<noteq> Map.empty" by (simp add: song_easy_def)
  have c: "e_accepts song_easy ''title'' (PyList [PyStr ''New''])" by (simp add: song_easy_def)
  have d: "\<not> e_accepts song_easy ''comment'' (PyList [PyStr ''hello''])" by (simp add: song_easy_def)
  from TagIO_set_accepted [OF a b, of "''title''" "''New''"] c
  have e: "TagIO_get (TagIO_set song_io ''title'' ''New'') ''title'' = [''New'']" by blast
  from TagIO_set_accepted [OF a b, of "''title''"]
  have f: "TagIO_set song_io ''title'' '''' =
           song_io\<lparr>audio := Some (song_easy\<lparr>e_tags := (e_tags song_easy)(''title'' := None)\<rparr>)\<rparr>"
    by blast
  have g: "TagIO_get (TagIO_set song_io ''title'' '''') ''title'' = []"
    by (simp add: f TagIO_get_def truthy_def file_get_def song_easy_def)
  from TagIO_set_accepted [OF a b, of "''comment''" "''hello''"] d
  have h: "TagIO_set song_io ''comment'' ''hello'' = song_io" by blast
  show ?thesis using a b c d e g h by simp
qed

subsection \<open>Tui.edit_field\<close>

text \<open>
  C9: for a field index of the catalog, \<open>edit_field\<close> asks the text-input modal with the
  field's current value as initial text; when the modal is cancelled or returns the
  current value, the record and the dirty flag are unchanged; when it returns another
  value, that field of the record is set to it and the dirty flag is raised. An index
  outside the catalog changes nothing.
\<close>

theorem Tui_edit_field_transition:
  "(idx < 0 \<or> idx \<ge> int (length DEFAULT_FIELDS) \<longrightarrow> Tui_edit_field ask t idx = t)
   \<and> (0 \<le> idx \<and> idx < int (length DEFAULT_FIELDS) \<longrightarrow>
        (let key = fst (DEFAULT_FIELDS ! nat idx);
             cur = (case tags t key of None \<Rightarrow> [] | Some x \<Rightarrow> x);
             answer = ask (snd (DEFAULT_FIELDS ! nat idx) @ '': '') cur
         in (answer = None \<or> answer = Some cur \<longrightarrow> Tui_edit_field ask t idx = t)
            \<and> (\<forall>nv. answer = Some nv \<and> nv \<noteq> cur \<longrightarrow>
                  Tui_edit_field ask t idx = t\<lparr>tags := (tags t)(key \<mapsto> nv), dirty := True\<rparr>)))"
  by (auto simp: Tui_edit_field_def Let_def)

theorem Tui_edit_field_transition_witness:
  "Tui_edit_field (\<lambda>prompt initial. None) edit_tui 0 = edit_tui
   \<and> Tui_edit_field (\<lambda>prompt initial. Some initial) edit_tui 0 = edit_tui
   \<and> Tui_edit_field (\<lambda>prompt initial. Some ''New'') edit_tui 0
       = edit_tui\<lparr>tags := (tags edit_tui)(''title'' \<mapsto> ''New''), dirty := True\<rparr>
   \<and> Tui_edit_field (\<lambda>prompt initial. Some ''New'') edit_tui 9 = edit_tui"
proof -
  have k: "fst (DEFAULT_FIELDS ! nat 0) = ''title''" "(0::int) < int (length DEFAULT_FIELDS)"
    "(9::int) \<ge> int (length DEFAULT_FIELDS)" "tags edit_tui ''title'' = Some ''Old''"
    by (simp_all add: DEFAULT_FIELDS_def edit_tui_def)
  have a: "Tui_edit_field (\<lambda>prompt initial. None) edit_tui 0 = edit_tui"
    using Tui_edit_field_transition [of 0 "\<lambda>prompt initial. None" edit_tui] k
    by (simp add: Let_def)
  have b: "Tui_edit_field (\<lambda>prompt initial. Some initial) edit_tui 0 = edit_tui"
    using Tui_edit_field_transition [of 0 "\<lambda>prompt initial. Some initial" edit_tui] k
    by (simp add: Let_def)
  have c: "Tui_edit_field (\<lambda>prompt initial. Some ''New'') edit_tui 0
           = edit_tui\<lparr>tags := (tags edit_tui)(''title'' \<mapsto> ''New''), dirty := True\<rparr>"
    using Tui_edit_field_transition [of 0 "\<lambda>prompt initial. Some ''New''" edit_tui] k
    by (simp add: Let_def)
  have d: "Tui_edit_field (\<lambda>prompt initial. Some ''New'') edit_tui 9 = edit_tui"
    using Tui_edit_field_transition [of 9 "\<lambda>prompt initial. Some ''New''" edit_tui] k
    by simp
  show ?thesis using a b c d by blast
qed

subsection \<open>FileBrowser\<close>

lemma refresh_store_in_range:
  "0 \<le> selection b \<Longrightarrow> selection_in_range (refresh_store b items)"
  by (auto simp: refresh_store_def selection_in_range_def Let_def)

lemma refresh_in_range:
  "0 \<le> selection b \<Longrightarrow> FileBrowser_refresh F b = Inr b' \<Longrightarrow> selection_in_range b'"
  by (auto simp: FileBrowser_refresh_def refresh_store_in_range split: sum.splits exn.splits)

lemma refresh_reset_in_range:
  "FileBrowser_refresh F (b\<lparr>root := r, selection := 0\<rparr>) = Inr b' \<Longrightarrow> selection_in_range b'"
  by (rule refresh_in_range [of "b\<lparr>root := r, selection := 0\<rparr>"]) simp_all

lemma mod_len_bounds:
  "0 \<le> (i::int) mod max 1 (int n) \<and> (n \<noteq> 0 \<longrightarrow> i mod max 1 (int n) < int n)
   \<and> (n = 0 \<longrightarrow> i mod max 1 (int n) = 0)"
proof -
  have "0 < max 1 (int n)" by simp
  then have "0 \<le> i mod max 1 (int n) \<and> i mod max 1 (int n) < max 1 (int n)"
    by (simp add: pos_mod_sign pos_mod_bound del: max_less_iff_conj less_max_iff_disj)
  then show ?thesis by (cases n) auto
qed

lemma up_in_range: "selection_in_range (FileBrowser_up b)"
  using mod_len_bounds [of "selection b - 1" "length (entries b)"]
  by (simp add: FileBrowser_up_def selection_in_range_def)

lemma down_in_range: "selection_in_range (FileBrowser_down b)"
  using mod_len_bounds [of "selection b + 1" "length (entries b)"]
  by (simp add: FileBrowser_down_def selection_in_range_def)

lemma enter_in_range:
  "selection_in_range b \<Longrightarrow> FileBrowser_enter F b = Inr (res, b') \<Longrightarrow> selection_in_range b'"
  by (auto simp: FileBrowser_enter_def Let_def split: if_splits sum.splits
      dest: refresh_reset_in_range)

lemma parent_in_range:
  "selection_in_range b \<Longrightarrow> FileBrowser_parent F b = Inr b' \<Longrightarrow> selection_in_range b'"
  by (auto simp: FileBrowser_parent_def Let_def split: if_splits dest: refresh_reset_in_range)

lemma init_in_range: "FileBrowser_init F r e = Inr b \<Longrightarrow> selection_in_range b"
  by (auto simp: FileBrowser_init_def intro: refresh_in_range [rotated])

lemma up_cyclic:
  "entries b \<noteq> [] \<Longrightarrow> selection_in_range b \<Longrightarrow>
   selection (FileBrowser_up b) =
     (if selection b = 0 then int (length (entries b)) - 1 else selection b - 1)"
  by (auto simp: FileBrowser_up_def selection_in_range_def zmod_minus1)

lemma down_cyclic:
  "entries b \<noteq> [] \<Longrightarrow> selection_in_range b \<Longrightarrow>
   selection (FileBrowser_down b) =
     (if selection b = int (length (entries b)) - 1 then 0 else selection b + 1)"
  by (auto simp: FileBrowser_down_def selection_in_range_def)


text \<open>
  C10: the selection of the file browser is an index of the entry list (0 when the list
  is empty) after the constructor and after \<open>refresh\<close>, \<open>up\<close>, \<open>down\<close>, \<open>enter\<close> and
  \<open>parent\<close>; \<open>up\<close> and \<open>down\<close> wrap around at the ends of the list; \<open>refresh\<close> brings
  a selection beyond the end of the new list back into range.
\<close>

theorem FileBrowser_selection_in_range:
  "(FileBrowser_init F r e = Inr b0 \<longrightarrow> selection_in_range b0)
   \<and> (0 \<le> selection b \<and> FileBrowser_refresh F b = Inr b1 \<longrightarrow> selection_in_range b1)
   \<and> selection_in_range (FileBrowser_up b)
   \<and> selection_in_range (FileBrowser_down b)
   \<and> (selection_in_range b \<and> entries b \<noteq> [] \<longrightarrow>
        selection (FileBrowser_up b) =
          (if selection b = 0 then int (length (entries b)) - 1 else selection b - 1)
        \<and> selection (FileBrowser_down b) =
          (if selection b = int (length (entries b)) - 1 then 0 else selection b + 1))
   \<and> (selection_in_range b \<and> FileBrowser_enter F b = Inr (res, b2) \<longrightarrow> selection_in_range b2)
   \<and> (selection_in_range b \<and> FileBrowser_parent F b = Inr b3 \<longrightarrow> selection_in_range b3)"
  using init_in_range [of F r e b0] refresh_in_range [of b F b1] up_in_range [of b]
    down_in_range [of b] up_cyclic [of b] down_cyclic [of b] enter_in_range [of b F res b2]
    parent_in_range [of b F b3]
  by blast

theorem FileBrowser_selection_in_range_witness:
  "FileBrowser_init music_fs ''/music'' None = Inr music_browser
   \<and> selection_in_range music_browser
   \<and> FileBrowser_refresh music_fs (music_browser\<lparr>selection := 7\<rparr>)
       = Inr (music_browser\<lparr>selection := 2\<rparr>)
   \<and> selection_in_range (music_browser\<lparr>selection := 2\<rparr>)
   \<and> selection (FileBrowser_up music_browser) = 2
   \<and> selection (FileBrowser_down (music_browser\<lparr>selection := 2\<rparr>)) = 0
   \<and> FileBrowser_enter music_fs music_browser
       = Inr (None, music_browser\<lparr>root := ''/music/Albums'', entries := []\<rparr>)
   \<and> selection_in_range (music_browser\<lparr>root := ''/music/Albums'', entries := []\<rparr>)
   \<and> FileBrowser_parent music_fs music_browser
       = Inr (music_browser\<lparr>root := ''/'', entries := []\<rparr>)
   \<and> selection_in_range (music_browser\<lparr>root := ''/'', entries := []\<rparr>)"
proof -
  have i: "FileBrowser_init music_fs ''/music'' None = Inr music_browser"
    by code_simp
  have r: "FileBrowser_refresh music_fs (music_browser\<lparr>selection := 7\<rparr>)
           = Inr (music_browser\<lparr>selection := 2\<rparr>)"
    by code_simp
  have r0: "0 \<le> selection (music_browser\<lparr>selection := 7\<rparr>)"
    by simp
  have n: "entries music_browser \<noteq> []" "entries (music_browser\<lparr>selection := 2\<rparr>) \<noteq> []"
    by (simp_all add: music_browser_def)
  have e: "FileBrowser_enter music_fs music_browser
           = Inr (None, music_browser\<lparr>root := ''/music/Albums'', entries := []\<rparr>)"
    by code_simp
  have p: "FileBrowser_parent music_fs music_browser
           = Inr (music_browser\<lparr>root := ''/'', entries := []\<rparr>)"
    by code_simp
  have a: "selection_in_range music_browser"
    using FileBrowser_selection_in_range [where F = music_fs and b0 = music_browser] i by blast
  have b: "selection_in_range (music_browser\<lparr>selection := 2\<rparr>)"
    using FileBrowser_selection_in_range
      [where F = music_fs and b = "music_browser\<lparr>selection := 7\<rparr>"
         and ?b1.0 = "music_browser\<lparr>selection := 2\<rparr>"] r r0
    by blast
  have u0: "selection (FileBrowser_up music_browser) =
              (if selection music_browser = 0 then int (length (entries music_browser)) - 1
               else selection music_browser - 1)"
    using FileBrowser_selection_in_range [where b = music_browser] a n by blast
  have u: "selection (FileBrowser_up music_browser) = 2"
    by (simp add: u0) (simp add: music_browser_def)
  have d0: "selection (FileBrowser_down (music_browser\<lparr>selection := 2\<rparr>)) =
              (if selection (music_browser\<lparr>selection := 2\<rparr>)
                    = int (length (entries (music_browser\<lparr>selection := 2\<rparr>))) - 1
               then 0 else selection (music_browser\<lparr>selection := 2\<rparr>) + 1)"
    using FileBrowser_selection_in_range [where b = "music_browser\<lparr>selection := 2\<rparr>"] b n
    by blast
  have d: "selection (FileBrowser_down (music_browser\<lparr>selection := 2\<rparr>)) = 0"
    by (simp add: d0) (simp add: music_browser_def)
  have e': "selection_in_range (music_browser\<lparr>root := ''/music/Albums'', entries := []\<rparr>)"
    using FileBrowser_selection_in_range
      [where F = music_fs and b = music_browser
         and ?b2.0 = "music_browser\<lparr>root := ''/music/Albums'', entries := []\<rparr>"] a e
    by blast
  have p': "selection_in_range (music_browser\<lparr>root := ''/'', entries := []\<rparr>)"
    using FileBrowser_selection_in_range
      [where F = music_fs and b = music_browser
         and ?b3.0 = "music_browser\<lparr>root := ''/'', entries := []\<rparr>"] a p
    by blast
  show ?thesis using i a r b u d e e' p p' by blast
qed

subsection \<open>TagIO.save\<close>




subsection \<open>Unsupported files\<close>





subsection \<open>TagIO.set_cover: the MIME type\<close>

lemma cover_mime_cases:
  "cover_mime E p =
     (case guess_type E p of
        None \<Rightarrow> ''image/jpeg''
      | Some m \<Rightarrow> if startswith m ''image/'' then m else ''image/jpeg'')"
  by (auto simp: cover_mime_def startswith_def split: option.splits)

text \<open>
  C7: \<open>set_cover\<close> takes the MIME type of the image from \<open>mimetypes.guess_type\<close>. For a
  path that function resolves by looking up the lower-cased extension in its table,
  the type is the table's entry when that entry is an image type, and \<open>image/jpeg\<close>
  when the extension is absent, has no entry, or has an entry that is not an image
  type; two paths whose extensions differ only in case get the same type; and that
  type is the one stored in the picture \<open>set_cover\<close> writes.
\<close>

theorem cover_mime_from_extension:
  assumes "guess_type E p = types_map E (lower (snd (splitext p)))"
  shows "(types_map E (lower (snd (splitext p))) = None \<longrightarrow> cover_mime E p = ''image/jpeg'')
       \<and> (\<forall>m. types_map E (lower (snd (splitext p))) = Some m \<longrightarrow>
              cover_mime E p = (if startswith m ''image/'' then m else ''image/jpeg''))
       \<and> (\<forall>q. guess_type E q = types_map E (lower (snd (splitext q)))
              \<and> lower (snd (splitext q)) = lower (snd (splitext p)) \<longrightarrow>
              cover_mime E q = cover_mime E p)
       \<and> (\<forall>io d b ps. raw io = Some (FLAC ps) \<and> read_bytes E d p = Inr b \<longrightarrow>
              raw (fst (snd (TagIO_set_cover E io p d)))
                = Some (FLAC [cover_picture (cover_mime E p) b]))"
proof -
  have a: "types_map E (lower (snd (splitext p))) = None \<longrightarrow> cover_mime E p = ''image/jpeg''"
    using assms by (simp add: cover_mime_cases)
  have b: "\<forall>m. types_map E (lower (snd (splitext p))) = Some m \<longrightarrow>
              cover_mime E p = (if startswith m ''image/'' then m else ''image/jpeg'')"
    using assms by (simp add: cover_mime_cases)
  have c: "\<forall>q. guess_type E q = types_map E (lower (snd (splitext q)))
              \<and> lower (snd (splitext q)) = lower (snd (splitext p)) \<longrightarrow>
              cover_mime E q = cover_mime E p"
    using assms by (simp add: cover_mime_cases)
  have d: "\<forall>io d b ps. raw io = Some (FLAC ps) \<and> read_bytes E d p = Inr b \<longrightarrow>
              raw (fst (snd (TagIO_set_cover E io p d)))
                = Some (FLAC [cover_picture (cover_mime E p) b])"
    by (auto simp: TagIO_set_cover_def saved_def Let_def split: prod.splits option.splits)
  show ?thesis using a b c d by blast
qed

theorem cover_mime_from_extension_witness:
  "guess_type example_env ''/music/cover.PNG''
     = types_map example_env (lower (snd (splitext ''/music/cover.PNG'')))
   \<and> cover_mime example_env ''/music/cover.PNG'' = ''image/png''
   \<and> cover_mime example_env ''/music/cover.png'' = ''image/png''
   \<and> cover_mime example_env ''/music/cover.JpG'' = ''image/jpeg''
   \<and> cover_mime example_env ''/music/cover'' = ''image/jpeg''
   \<and> cover_mime example_env ''/music/cover.xyz'' = ''image/jpeg''
   \<and> cover_mime example_env ''/music/notes.txt'' = ''image/jpeg''"
proof -
  have g: "\<And>p. guess_type example_env p = types_map example_env (lower (snd (splitext p)))"
    by (simp add: example_env_def)
  have t: "types_map example_env (lower (snd (splitext ''/music/cover.PNG''))) = Some ''image/png''"
    "types_map example_env (lower (snd (splitext ''/music/cover.png''))) = Some ''image/png''"
    "types_map example_env (lower (snd (splitext ''/music/cover.JpG''))) = Some ''image/jpeg''"
    "types_map example_env (lower (snd (splitext ''/music/cover''))) = None"
    "types_map example_env (lower (snd (splitext ''/music/cover.xyz''))) = None"
    "types_map example_env (lower (snd (splitext ''/music/notes.txt''))) = Some ''text/plain''"
    by code_simp+
  have s: "startswith ''image/png'' ''image/''" "startswith ''image/jpeg'' ''image/''"
    "\<not> startswith ''text/plain'' ''image/''"
    by (simp_all add: startswith_def)
  have 1: "cover_mime example_env ''/music/cover.PNG'' = ''image/png''"
    using cover_mime_from_extension [OF g [of "''/music/cover.PNG''"]] t(1) s by simp
  have 2: "cover_mime example_env ''/music/cover.png'' = ''image/png''"
    using cover_mime_from_extension [OF g [of "''/music/cover.png''"]] t(2) s by simp
  have 3: "cover_mime example_env ''/music/cover.JpG'' = ''image/jpeg''"
    using cover_mime_from_extension [OF g [of "''/music/cover.JpG''"]] t(3) s by simp
  have 4: "cover_mime example_env ''/music/cover'' = ''image/jpeg''"
    using cover_mime_from_extension [OF g [of "''/music/cover''"]] t(4) by blast
  have 5: "cover_mime example_env ''/music/cover.xyz'' = ''image/jpeg''"
    using cover_mime_from_extension [OF g [of "''/music/cover.xyz''"]] t(5) by blast
  have 6: "cover_mime example_env ''/music/notes.txt'' = ''image/jpeg''"
    using cover_mime_from_extension [OF g [of "''/music/notes.txt''"]] t(6) s by simp
  show ?thesis using g 1 2 3 4 5 6 by blast
qed

subsection \<open>TagIO.set_cover: Vorbis and Opus\<close>

lemma del_if_present_eq: "del_if_present t k = t(k := None)"
  by (auto simp: del_if_present_def)

text \<open>
  C5: on a Vorbis or Opus handle, once the image file is read, \<open>set_cover\<close> saves a tag
  dictionary in which \<open>coverart\<close> and \<open>coverartmime\<close> are absent, in which
  \<open>metadata_block_picture\<close> holds the Base64 text of the picture block with type 3,
  the MIME type of the image, the description \<open>cover\<close> and the bytes of the image file,
  and nothing else, and in which every other key is as before; it returns success
  exactly when that save does not raise.
\<close>

theorem set_cover_ogg_legacy_keys:
  assumes "raw io = Some (Ogg cls vc)" and "read_bytes E d img = Inr b"
  shows "\<exists>t'. TagIO_set_cover E io img d
               = saved (io\<lparr>raw := Some (Ogg cls (Some t'))\<rparr>)
                   (save_raw E (Ogg cls (Some t')) (path io) d)
            \<and> t' ''coverart'' = None \<and> t' ''coverartmime'' = None
            \<and> t' ''metadata_block_picture''
                = Some [b64encode E (picture_write E
                          \<lparr>type = 3, mime = cover_mime E img, desc = ''cover'', data = b\<rparr>)]
            \<and> (\<forall>k. k \<noteq> ''coverart'' \<and> k \<noteq> ''coverartmime'' \<and> k \<noteq> ''metadata_block_picture''
                  \<longrightarrow> t' k = (case vc of None \<Rightarrow> None | Some t \<Rightarrow> t k))
            \<and> (fst (TagIO_set_cover E io img d) = (True, None)
                 \<longleftrightarrow> snd (save_raw E (Ogg cls (Some t')) (path io) d) = None)"
proof -
  let ?pic = "\<lparr>type = 3, mime = cover_mime E img, desc = ''cover'', data = b\<rparr>"
  let ?t = "case vc of None \<Rightarrow> Map.empty | Some t \<Rightarrow> t"
  let ?t' = "(?t(''coverart'' := None, ''coverartmime'' := None))
               (''metadata_block_picture'' \<mapsto> [b64encode E (picture_write E ?pic)])"
  have p: "cover_picture (cover_mime E img) b = ?pic"
    by (simp add: cover_picture_def Picture_def)
  have r: "TagIO_set_cover E io img d
           = saved (io\<lparr>raw := Some (Ogg cls (Some ?t'))\<rparr>)
               (save_raw E (Ogg cls (Some ?t')) (path io) d)"
    using assms by (simp add: TagIO_set_cover_def Let_def del_if_present_eq p)
  have k: "?t' ''coverart'' = None" "?t' ''coverartmime'' = None"
    "?t' ''metadata_block_picture'' = Some [b64encode E (picture_write E ?pic)]"
    by simp_all
  have o: "\<forall>k. k \<noteq> ''coverart'' \<and> k \<noteq> ''coverartmime'' \<and> k \<noteq> ''metadata_block_picture''
                  \<longrightarrow> ?t' k = (case vc of None \<Rightarrow> None | Some t \<Rightarrow> t k)"
    by (cases vc) auto
  have s: "fst (TagIO_set_cover E io img d) = (True, None)
           \<longleftrightarrow> snd (save_raw E (Ogg cls (Some ?t')) (path io) d) = None"
    unfolding r by (auto simp: saved_def split: prod.splits option.splits)
  show ?thesis
    by (intro exI [of _ ?t'] conjI) (rule r k o s)+
qed

theorem set_cover_ogg_legacy_keys_witness:
  "raw ogg_io = Some (Ogg OggVorbis (Some [''title'' \<mapsto> [''Tune''], ''coverart'' \<mapsto> [''AAAA''],
                                            ''coverartmime'' \<mapsto> [''image/gif'']]))
   \<and> read_bytes example_env example_disk ''/music/cover.PNG'' = Inr [137, 80, 78, 71]
   \<and> fst (TagIO_set_cover example_env ogg_io ''/music/cover.PNG'' example_disk) = (True, None)
   \<and> (\<exists>t'. raw (fst (snd (TagIO_set_cover example_env ogg_io ''/music/cover.PNG'' example_disk)))
              = Some (Ogg OggVorbis (Some t'))
            \<and> t' ''coverart'' = None \<and> t' ''coverartmime'' = None
            \<and> t' ''metadata_block_picture''
                = Some [b64encode example_env
                          (picture_write example_env
                             \<lparr>type = 3, mime = ''image/png'', desc = ''cover'',
                               data = [137, 80, 78, 71]\<rparr>)]
            \<and> picture_write example_env
                 \<lparr>type = 3, mime = ''image/png'', desc = ''cover'', data = [137, 80, 78, 71]\<rparr>
                = [3, 9, 137, 80, 78, 71]
            \<and> t' ''title'' = Some [''Tune''])"
proof -
  let ?vc = "Some [''title'' \<mapsto> [''Tune''], ''coverart'' \<mapsto> [''AAAA''],
                   ''coverartmime'' \<mapsto> [''image/gif'']]"
  let ?E = example_env and ?d = example_disk and ?img = "''/music/cover.PNG''"
  let ?pic = "\<lparr>type = 3, mime = ''image/png'', desc = ''cover'', data = [137, 80, 78, 71]\<rparr>"
  have a: "raw ogg_io = Some (Ogg OggVorbis ?vc)"
    by (simp add: ogg_io_def)
  have b: "read_bytes ?E ?d ?img = Inr [137, 80, 78, 71]"
    by (simp add: example_env_def example_disk_def)
  have m: "cover_mime ?E ?img = ''image/png''"
    by code_simp
  from set_cover_ogg_legacy_keys [OF a b]
  obtain t' where t:
    "TagIO_set_cover ?E ogg_io ?img ?d
       = saved (ogg_io\<lparr>raw := Some (Ogg OggVorbis (Some t'))\<rparr>)
           (save_raw ?E (Ogg OggVorbis (Some t')) (path ogg_io) ?d)
     \<and> t' ''coverart'' = None \<and> t' ''coverartmime'' = None
     \<and> t' ''metadata_block_picture''
         = Some [b64encode ?E (picture_write ?E
                   \<lparr>type = 3, mime = cover_mime ?E ?img, desc = ''cover'', data = [137, 80, 78, 71]\<rparr>)]
     \<and> (\<forall>k. k \<noteq> ''coverart'' \<and> k \<noteq> ''coverartmime'' \<and> k \<noteq> ''metadata_block_picture''
           \<longrightarrow> t' k = (case ?vc of None \<Rightarrow> None | Some t \<Rightarrow> t k))
     \<and> (fst (TagIO_set_cover ?E ogg_io ?img ?d) = (True, None)
          \<longleftrightarrow> snd (save_raw ?E (Ogg OggVorbis (Some t')) (path ogg_io) ?d) = None)" ..
  have r: "TagIO_set_cover ?E ogg_io ?img ?d
           = saved (ogg_io\<lparr>raw := Some (Ogg OggVorbis (Some t'))\<rparr>)
               (save_raw ?E (Ogg OggVorbis (Some t')) (path ogg_io) ?d)"
    using t by (rule conjunct1)
  have ok: "fst (TagIO_set_cover ?E ogg_io ?img ?d) = (True, None)"
    unfolding r by (simp add: saved_def example_env_def)
  have raw': "raw (fst (snd (TagIO_set_cover ?E ogg_io ?img ?d))) = Some (Ogg OggVorbis (Some t'))"
    unfolding r by (simp add: saved_def example_env_def)
  have c1: "t' ''coverart'' = None" and c2: "t' ''coverartmime'' = None"
    using t by simp_all
  have "t' ''metadata_block_picture''
         = Some [b64encode ?E (picture_write ?E
                   \<lparr>type = 3, mime = cover_mime ?E ?img, desc = ''cover'', data = [137, 80, 78, 71]\<rparr>)]"
    using t by (elim conjE)
  then have c3: "t' ''metadata_block_picture'' = Some [b64encode ?E (picture_write ?E ?pic)]"
    unfolding m .
  have c5: "picture_write ?E ?pic = [3, 9, 137, 80, 78, 71]"
    by (simp add: example_env_def)
  have "t' ''title'' = (case ?vc of None \<Rightarrow> None | Some t \<Rightarrow> t ''title'')"
    using t by simp
  then have c4: "t' ''title'' = Some [''Tune'']"
    by simp
  have ex: "\<exists>t'. raw (fst (snd (TagIO_set_cover ?E ogg_io ?img ?d))) = Some (Ogg OggVorbis (Some t'))
            \<and> t' ''coverart'' = None \<and> t' ''coverartmime'' = None
            \<and> t' ''metadata_block_picture'' = Some [b64encode ?E (picture_write ?E ?pic)]
            \<and> picture_write ?E ?pic = [3, 9, 137, 80, 78, 71]
            \<and> t' ''title'' = Some [''Tune'']"
    by (intro exI [of _ t'] conjI) (rule raw' c1 c2 c3 c4 c5)+
  show ?thesis
    by (intro conjI) (rule a b ok ex)+
qed

subsection \<open>Picture types\<close>

lemma set_id3_setitem: "set (id3_setitem t k fr) \<subseteq> insert (k, fr) (set t)"
  by (induction t) auto

lemma cover_id3_apic:
  assumes "(k, fr) \<in> set (cover_id3 m b t)" and "startswith k ''APIC''"
  shows "\<exists>a. fr = APIC a \<and> apic_type a = 3"
proof -
  have "(k, fr) \<in> insert (HashKey (cover_apic m b), cover_apic m b) (set (remove_apics t))"
    using assms(1) set_id3_setitem unfolding cover_id3_def id3_add_def by blast
  moreover have "(k, fr) \<notin> set (remove_apics t)"
    using assms(2) by (auto simp: remove_apics_def)
  ultimately show ?thesis by (simp add: cover_apic_def)
qed

lemma id3_getall_retype:
  "id3_getall (map (\<lambda>kv. (fst kv, retype ty (snd kv))) t) key = map (retype ty) (id3_getall t key)"
proof -
  have m: "map_of (map (\<lambda>kv. (fst kv, retype ty (snd kv))) t) key
           = map_option (retype ty) (map_of t key)"
    by (induction t) auto
  have f: "map snd (filter (\<lambda>kv. startswith (fst kv) (key @ '':''))
                      (map (\<lambda>kv. (fst kv, retype ty (snd kv))) t))
           = map (retype ty) (map snd (filter (\<lambda>kv. startswith (fst kv) (key @ '':'')) t))"
    by (induction t) auto
  show ?thesis
    unfolding id3_getall_def m f by (cases "map_of t key") simp_all
qed

lemma get_cover_info_flac_retype:
  "TagIO_get_cover_info E (io\<lparr>raw := Some (FLAC (map (\<lambda>p. p\<lparr>type := ty\<rparr>) ps))\<rparr>)
   = TagIO_get_cover_info E (io\<lparr>raw := Some (FLAC ps)\<rparr>)"
  by (cases ps) (simp_all add: TagIO_get_cover_info_def)

lemma get_cover_info_id3_retype:
  "TagIO_get_cover_info E
     (io\<lparr>raw := Some (OtherFile (Some (map (\<lambda>kv. (fst kv, retype ty (snd kv))) t)))\<rparr>)
   = TagIO_get_cover_info E (io\<lparr>raw := Some (OtherFile (Some t))\<rparr>)"
proof (cases "id3_getall t ''APIC''")
  case Nil
  then show ?thesis
    by (simp add: TagIO_get_cover_info_def id3_getall_retype)
next
  case (Cons fr frs)
  have ne: "t \<noteq> []"
    using Cons by (auto simp: id3_getall_def)
  have g: "id3_getall (map (\<lambda>kv. (fst kv, retype ty (snd kv))) t) ''APIC''
           = retype ty fr # map (retype ty) frs"
    by (simp add: id3_getall_retype Cons)
  let ?info = "\<lambda>frames. case frames of
                   [] \<Rightarrow> None
                 | APIC a # fs \<Rightarrow>
                     Some (info_text ''ID3 APIC: ''
                             (if apic_mime a = [] then ''image/*'' else apic_mime a)
                             (length (apic_data a)))
                 | OtherFrame k # fs \<Rightarrow> None"
  have l: "TagIO_get_cover_info E
             (io\<lparr>raw := Some (OtherFile (Some (map (\<lambda>kv. (fst kv, retype ty (snd kv))) t)))\<rparr>)
           = ?info (retype ty fr # map (retype ty) frs)"
    by (simp add: TagIO_get_cover_info_def g ne)
  have r: "TagIO_get_cover_info E (io\<lparr>raw := Some (OtherFile (Some t))\<rparr>) = ?info (fr # frs)"
    by (simp add: TagIO_get_cover_info_def Cons ne)
  show ?thesis
    unfolding l r by (cases fr) (simp_all add: retype_def)
qed

lemma set_cover_flac:
  "read_bytes E d img = Inr b \<Longrightarrow> raw io = Some (FLAC ps) \<Longrightarrow>
   raw (fst (snd (TagIO_set_cover E io img d))) = Some (FLAC [cover_picture (cover_mime E img) b])"
  by (auto simp: TagIO_set_cover_def saved_def Let_def split: prod.splits option.splits)

lemma set_cover_ogg:
  "read_bytes E d img = Inr b \<Longrightarrow> raw io = Some (Ogg cls vc) \<Longrightarrow>
   \<exists>t'. raw (fst (snd (TagIO_set_cover E io img d))) = Some (Ogg cls (Some t'))
       \<and> t' ''metadata_block_picture''
           = Some [b64encode E (picture_write E (cover_picture (cover_mime E img) b))]"
  by (auto simp: TagIO_set_cover_def saved_def Let_def split: prod.splits option.splits)

lemma set_cover_id3:
  "read_bytes E d img = Inr b \<Longrightarrow> raw io = None \<or> raw io = Some (OtherFile t) \<Longrightarrow>
   id3_load E d (path io) = Inr id3 \<Longrightarrow>
   snd (snd (TagIO_set_cover E io img d))
     = fst (id3_save E (cover_id3 (cover_mime E img) b id3) (path io) d)"
  by (auto simp: TagIO_set_cover_def Let_def split: prod.splits option.splits)

text \<open>
  C4 (as amended): every picture \<open>set_cover\<close> writes has picture type 3: the FLAC
  picture block, the block encoded into \<open>metadata_block_picture\<close>, and the only picture
  frame of the ID3 tag it saves (an MP4 cover has no picture type). What
  \<open>get_cover_info\<close> reports does not depend on the picture type of any embedded
  picture: it is the same when every FLAC picture or every ID3 picture frame carries
  another type.
\<close>

theorem cover_picture_type:
  "type (cover_picture m b) = 3
   \<and> (\<forall>k fr. (k, fr) \<in> set (cover_id3 m b id3) \<and> startswith k ''APIC'' \<longrightarrow>
         (\<exists>a. fr = APIC a \<and> apic_type a = 3))
   \<and> (read_bytes E d img = Inr b \<longrightarrow>
        (\<forall>ps. raw io = Some (FLAC ps) \<longrightarrow>
           raw (fst (snd (TagIO_set_cover E io img d)))
             = Some (FLAC [cover_picture (cover_mime E img) b]))
        \<and> (\<forall>cls vc. raw io = Some (Ogg cls vc) \<longrightarrow>
             (\<exists>t'. raw (fst (snd (TagIO_set_cover E io img d))) = Some (Ogg cls (Some t'))
                  \<and> t' ''metadata_block_picture''
                      = Some [b64encode E (picture_write E (cover_picture (cover_mime E img) b))]))
        \<and> (\<forall>t. (raw io = None \<or> raw io = Some (OtherFile t))
                \<and> id3_load E d (path io) = Inr id3 \<longrightarrow>
             snd (snd (TagIO_set_cover E io img d))
               = fst (id3_save E (cover_id3 (cover_mime E img) b id3) (path io) d)))
   \<and> TagIO_get_cover_info E (io\<lparr>raw := Some (FLAC (map (\<lambda>p. p\<lparr>type := ty\<rparr>) pics))\<rparr>)
       = TagIO_get_cover_info E (io\<lparr>raw := Some (FLAC pics)\<rparr>)
   \<and> TagIO_get_cover_info E
         (io\<lparr>raw := Some (OtherFile (Some (map (\<lambda>kv. (fst kv, retype ty (snd kv))) id3)))\<rparr>)
       = TagIO_get_cover_info E (io\<lparr>raw := Some (OtherFile (Some id3))\<rparr>)"
proof -
  have 1: "type (cover_picture m b) = 3"
    by (simp add: cover_picture_def)
  have 2: "\<forall>k fr. (k, fr) \<in> set (cover_id3 m b id3) \<and> startswith k ''APIC'' \<longrightarrow>
             (\<exists>a. fr = APIC a \<and> apic_type a = 3)"
    using cover_id3_apic [of _ _ m b id3] by blast
  have 3: "read_bytes E d img = Inr b \<longrightarrow>
        (\<forall>ps. raw io = Some (FLAC ps) \<longrightarrow>
           raw (fst (snd (TagIO_set_cover E io img d)))
             = Some (FLAC [cover_picture (cover_mime E img) b]))
        \<and> (\<forall>cls vc. raw io = Some (Ogg cls vc) \<longrightarrow>
             (\<exists>t'. raw (fst (snd (TagIO_set_cover E io img d))) = Some (Ogg cls (Some t'))
                  \<and> t' ''metadata_block_picture''
                      = Some [b64encode E (picture_write E (cover_picture (cover_mime E img) b))]))
        \<and> (\<forall>t. (raw io = None \<or> raw io = Some (OtherFile t))
                \<and> id3_load E d (path io) = Inr id3 \<longrightarrow>
             snd (snd (TagIO_set_cover E io img d))
               = fst (id3_save E (cover_id3 (cover_mime E img) b id3) (path io) d))"
    using set_cover_flac [of E d img b io] set_cover_ogg [of E d img b io]
      set_cover_id3 [of E d img b io _ id3]
    by (intro impI conjI allI) blast+
  show ?thesis
    by (intro conjI) (rule 1 2 3 get_cover_info_flac_retype get_cover_info_id3_retype)+
qed

text \<open>
  The claim as written fails on reading: a FLAC file whose only picture is a back cover
  (type 4) has a cover according to \<open>has_cover\<close>, and \<open>get_cover_info\<close> describes it.
\<close>

theorem cover_read_ignores_type_counterexample:
  "raw back_cover_io
     = Some (FLAC [\<lparr>type = 4, mime = ''image/png'', desc = ''back'', data = [1, 2, 3]\<rparr>])
   \<and> TagIO_has_cover example_env back_cover_io
   \<and> TagIO_get_cover_info example_env back_cover_io = Some ''FLAC picture: image/png (3 bytes)''"
proof -
  have a: "raw back_cover_io
           = Some (FLAC [\<lparr>type = 4, mime = ''image/png'', desc = ''back'', data = [1, 2, 3]\<rparr>])"
    by (simp add: back_cover_io_def)
  have n: "str_nat 3 = ''3''"
    by simp
  have b: "TagIO_get_cover_info example_env back_cover_io = Some ''FLAC picture: image/png (3 bytes)''"
    by (simp add: TagIO_get_cover_info_def a info_text_def n)
  have c: "TagIO_has_cover example_env back_cover_io"
    by (simp add: TagIO_has_cover_def b)
  show ?thesis
    by (intro conjI) (rule a b c)+
qed

theorem cover_picture_type_witness:
  "read_bytes example_env example_disk ''/music/cover.PNG'' = Inr [137, 80, 78, 71]
   \<and> raw back_cover_io
       = Some (FLAC [\<lparr>type = 4, mime = ''image/png'', desc = ''back'', data = [1, 2, 3]\<rparr>])
   \<and> raw (fst (snd (TagIO_set_cover example_env back_cover_io ''/music/cover.PNG'' example_disk)))
       = Some (FLAC [\<lparr>type = 3, mime = ''image/png'', desc = ''cover'', data = [137, 80, 78, 71]\<rparr>])"
proof -
  have b: "read_bytes example_env example_disk ''/music/cover.PNG'' = Inr [137, 80, 78, 71]"
    by (simp add: example_env_def example_disk_def)
  have m: "cover_mime example_env ''/music/cover.PNG'' = ''image/png''"
    by code_simp
  have f: "raw back_cover_io
           = Some (FLAC [\<lparr>type = 4, mime = ''image/png'', desc = ''back'', data = [1, 2, 3]\<rparr>])"
    by (simp add: back_cover_io_def)
  have p: "cover_picture ''image/png'' [137, 80, 78, 71]
           = \<lparr>type = 3, mime = ''image/png'', desc = ''cover'', data = [137, 80, 78, 71]\<rparr>"
    by (simp add: cover_picture_def Picture_def)
  have 1: "raw (fst (snd (TagIO_set_cover example_env back_cover_io ''/music/cover.PNG'' example_disk)))
           = Some (FLAC [\<lparr>type = 3, mime = ''image/png'', desc = ''cover'', data = [137, 80, 78, 71]\<rparr>])"
    using cover_picture_type [of "''image/png''" "[137, 80, 78, 71]" "[]" example_env example_disk
        "''/music/cover.PNG''" back_cover_io] b f
    unfolding m p by blast
  show ?thesis
    by (intro conjI) (rule b f 1)+
qed

subsection \<open>TagIO.clear_cover\<close>










end
